theory Spec2Isabelle
  imports Main
begin

section \<open>Values\<close>

text \<open>
  The template processor of \<^verbatim>\<open>webui/backend/template_processor.py\<close> works on the
  values a YAML or JSON document loads to: \<^verbatim>\<open>None\<close>, booleans, integers, strings,
  dictionaries and lists. A dictionary is an association list in insertion order; its
  keys are values themselves, because the code stores resolved keys, which
  \<^verbatim>\<open>resolve_variable\<close> may return with any type. Floating-point numbers are not part
  of the embedding.
\<close>

datatype Value =
    VNull
  | VBool bool
  | VInt int
  | VStr string
  | VMap "(Value \<times> Value) list"
  | VSeq "Value list"

type_synonym dict = "(Value \<times> Value) list"

datatype py_error = TypeError | AttributeError | ValueError

subsection \<open>Strings\<close>

definition digit_char :: "nat \<Rightarrow> char" where
  "digit_char d = char_of (48 + d)"

fun dec_nat :: "nat \<Rightarrow> string" where
  "dec_nat n = (if n < 10 then [digit_char n] else dec_nat (n div 10) @ [digit_char (n mod 10)])"

declare dec_nat.simps [simp del]

definition dec_int :: "int \<Rightarrow> string" where
  "dec_int i = (if i < 0 then CHR ''-'' # dec_nat (nat (- i)) else dec_nat (nat i))"

text \<open>
  \<^verbatim>\<open>str(v)\<close>. On a dictionary or a list the text depends on the run-time class of the
  object (a built-in \<^verbatim>\<open>dict\<close> and the YAML loader's ordered mapping print
  differently), which \<^typ>\<open>Value\<close> does not record: the printer of containers is the
  parameter \<open>cs\<close> of every function that stringifies.
\<close>

fun py_str :: "(Value \<Rightarrow> string) \<Rightarrow> Value \<Rightarrow> string" where
  "py_str cs VNull = ''None''"
| "py_str cs (VBool b) = (if b then ''True'' else ''False'')"
| "py_str cs (VInt i) = dec_int i"
| "py_str cs (VStr s) = s"
| "py_str cs v = cs v"

text \<open>\<^verbatim>\<open>sub in s\<close> on strings.\<close>

fun str_contains :: "string \<Rightarrow> string \<Rightarrow> bool" where
  "str_contains sub [] = (sub = [])"
| "str_contains sub (c # cs) = (take (length sub) (c # cs) = sub \<or> str_contains sub cs)"

definition str_endswith :: "string \<Rightarrow> string \<Rightarrow> bool" where
  "str_endswith s suf = (length suf \<le> length s \<and> drop (length s - length suf) s = suf)"

text \<open>
  \<^verbatim>\<open>s.replace(old, new)\<close>: every occurrence of \<open>old\<close>, found from the left and not
  overlapping; an empty \<open>old\<close> matches before every character and at the end.
\<close>

fun str_replace :: "string \<Rightarrow> string \<Rightarrow> string \<Rightarrow> string" where
  "str_replace [] old new = (if old = [] then new else [])"
| "str_replace (c # cs) old new =
     (if old = [] then new @ c # str_replace cs old new
      else if take (length old) (c # cs) = old
        then new @ str_replace (drop (length old) (c # cs)) old new
      else c # str_replace cs old new)"

subsection \<open>The pattern of an innermost placeholder\<close>

text \<open>
  \<^verbatim>\<open>re.finditer(r'<<([^<>]+)>>', result)\<close>: at a position the pattern matches when
  the text there is \<^verbatim>\<open><<\<close>, a non-empty run of characters other than \<^verbatim>\<open><\<close> and
  \<^verbatim>\<open>>\<close>, and \<^verbatim>\<open>>>\<close>. The run is the longest one (a shorter run is followed by a
  character of the run, never by \<^verbatim>\<open>>\<close>). \<open>match_here\<close> returns group 1 and the text
  after the match; \<open>innermost_matches\<close> lists group 1 of the matches from the left, the
  search going on after each match, or one character further where there is none.
\<close>

definition name_char :: "char \<Rightarrow> bool" where
  "name_char c = (c \<noteq> CHR ''<'' \<and> c \<noteq> CHR ''>'')"

definition match_here :: "string \<Rightarrow> (string \<times> string) option" where
  "match_here s =
     (if take 2 s = ''<<'' then
        (let var_name = takeWhile name_char (drop 2 s);
             rest = dropWhile name_char (drop 2 s)
         in if var_name \<noteq> [] \<and> take 2 rest = ''>>'' then Some (var_name, drop 2 rest) else None)
      else None)"

lemma match_here_shorter: "match_here s = Some (n, r) \<Longrightarrow> length r < length s"
proof -
  assume m: "match_here s = Some (n, r)"
  have l: "length (dropWhile name_char (drop 2 s)) \<le> length (drop 2 s)"
    by (rule length_dropWhile_le)
  from m have t: "take 2 s = ''<<''" and r: "r = drop 2 (dropWhile name_char (drop 2 s))"
    by (auto simp: match_here_def Let_def split: if_splits)
  from t have "length (take 2 s) = 2"
    by simp
  then have "2 \<le> length s"
    by simp
  with l r show ?thesis by simp
qed

function innermost_matches :: "string \<Rightarrow> string list" where
  "innermost_matches [] = []"
| "innermost_matches (c # cs) =
     (case match_here (c # cs) of
        Some (var_name, rest) \<Rightarrow> var_name # innermost_matches rest
      | None \<Rightarrow> innermost_matches cs)"
  by pat_completeness auto
termination
  by (relation "measure length") (auto dest: match_here_shorter)

subsection \<open>Dictionaries\<close>

text \<open>
  Keys are compared the way Python hashes and compares them: \<^verbatim>\<open>True == 1\<close> and
  \<^verbatim>\<open>False == 0\<close>; a dictionary or a list is not hashable.
\<close>

fun hashable :: "Value \<Rightarrow> bool" where
  "hashable (VMap _) = False"
| "hashable (VSeq _) = False"
| "hashable _ = True"

fun key_norm :: "Value \<Rightarrow> Value" where
  "key_norm (VBool b) = VInt (if b then 1 else 0)"
| "key_norm v = v"

definition key_eq :: "Value \<Rightarrow> Value \<Rightarrow> bool" where
  "key_eq a b = (key_norm a = key_norm b)"

text \<open>\<^verbatim>\<open>d.get(k)\<close>; \<^verbatim>\<open>k in d\<close> is \<open>dict_get d k \<noteq> None\<close>.\<close>

fun dict_get :: "dict \<Rightarrow> Value \<Rightarrow> Value option" where
  "dict_get [] k = None"
| "dict_get ((k', v) # d) k = (if key_eq k' k then Some v else dict_get d k)"

definition dict_has :: "dict \<Rightarrow> Value \<Rightarrow> bool" where
  "dict_has d k = (dict_get d k \<noteq> None)"

text \<open>\<^verbatim>\<open>d[k] = v\<close>: an entry that is there keeps its place and its key object.\<close>

fun dict_set :: "dict \<Rightarrow> Value \<Rightarrow> Value \<Rightarrow> dict" where
  "dict_set [] k v = [(k, v)]"
| "dict_set ((k', v') # d) k v =
     (if key_eq k' k then (k', v) # d else (k', v') # dict_set d k v)"

text \<open>\<^verbatim>\<open>d.update(e)\<close>, also \<^verbatim>\<open>{**d, **e}\<close> on a copy of \<open>d\<close>.\<close>

fun dict_update :: "dict \<Rightarrow> dict \<Rightarrow> dict" where
  "dict_update d [] = d"
| "dict_update d ((k, v) # e) = dict_update (dict_set d k v) e"

section \<open>The variable resolver\<close>

text \<open>
  \<^verbatim>\<open>resolve_variable\<close> on a string runs three nested loops. The innermost one,
  \<^verbatim>\<open>for match in matches\<close>, is \<open>subst_matches\<close>: it returns \<open>Inl v\<close> where the code
  returns the variable's value \<open>v\<close> from inside the loop, and otherwise the string and the
  flag \<^verbatim>\<open>made_replacement\<close>. The matches were found in the string as it was before
  the loop; \<^verbatim>\<open>result\<close> changes under it.
\<close>

fun subst_matches ::
  "(Value \<Rightarrow> string) \<Rightarrow> dict \<Rightarrow> string list \<Rightarrow> string \<Rightarrow> bool \<Rightarrow> Value + string \<times> bool" where
  "subst_matches cs variables [] result made_replacement = Inr (result, made_replacement)"
| "subst_matches cs variables (var_name # matches) result made_replacement =
     (let placeholder = ''<<'' @ var_name @ ''>>'' in
      case dict_get variables (VStr var_name) of
        None \<Rightarrow> subst_matches cs variables matches result made_replacement
      | Some var_value \<Rightarrow>
          if var_value = VNull then subst_matches cs variables matches result made_replacement
          else if result = placeholder then Inl var_value
          else subst_matches cs variables matches
                 (str_replace result placeholder (py_str cs var_value)) True)"

text \<open>
  The \<^verbatim>\<open>while True\<close> loop has no bound of its own: it is a partial function, whose
  value \<open>None\<close> says that the loop does not end.
\<close>

partial_function (option) resolve_inner ::
  "(Value \<Rightarrow> string) \<Rightarrow> dict \<Rightarrow> string \<Rightarrow> (Value + string) option" where
  "resolve_inner cs variables result =
     (let matches = innermost_matches result in
      if matches = [] then Some (Inr result)
      else case subst_matches cs variables matches result False of
             Inl var_value \<Rightarrow> Some (Inl var_value)
           | Inr (result', made_replacement) \<Rightarrow>
               if \<not> made_replacement then Some (Inr result')
               else resolve_inner cs variables result')"

declare resolve_inner.simps [code]

text \<open>The loop \<^verbatim>\<open>for _ in range(max_depth)\<close>, on the iterations that are left.\<close>

fun resolve_str :: "(Value \<Rightarrow> string) \<Rightarrow> dict \<Rightarrow> nat \<Rightarrow> string \<Rightarrow> Value option" where
  "resolve_str cs variables 0 result = Some (VStr result)"
| "resolve_str cs variables (Suc n) result =
     (case resolve_inner cs variables result of
        None \<Rightarrow> None
      | Some (Inl var_value) \<Rightarrow> Some var_value
      | Some (Inr result') \<Rightarrow>
          if result' = result then Some (VStr result')
          else resolve_str cs variables n result')"

text \<open>
  \<^verbatim>\<open>resolve_variable(value, variables, max_depth)\<close>. The recursive calls on the values
  of a dictionary and on the items of a list pass no \<^verbatim>\<open>max_depth\<close>, so they run with
  the default 10. The function raises nowhere; \<open>None\<close> is a call that does not return.
\<close>

fun resolve_variable :: "(Value \<Rightarrow> string) \<Rightarrow> Value \<Rightarrow> dict \<Rightarrow> int \<Rightarrow> Value option"
  and resolve_values :: "(Value \<Rightarrow> string) \<Rightarrow> dict \<Rightarrow> dict \<Rightarrow> dict option"
  and resolve_items :: "(Value \<Rightarrow> string) \<Rightarrow> Value list \<Rightarrow> dict \<Rightarrow> Value list option" where
  "resolve_variable cs VNull variables max_depth = Some VNull"
| "resolve_variable cs (VStr s) variables max_depth = resolve_str cs variables (nat max_depth) s"
| "resolve_variable cs (VMap d) variables max_depth =
     (case resolve_values cs d variables of None \<Rightarrow> None | Some d' \<Rightarrow> Some (VMap d'))"
| "resolve_variable cs (VSeq xs) variables max_depth =
     (case resolve_items cs xs variables of None \<Rightarrow> None | Some xs' \<Rightarrow> Some (VSeq xs'))"
| "resolve_variable cs (VBool b) variables max_depth = Some (VBool b)"
| "resolve_variable cs (VInt i) variables max_depth = Some (VInt i)"
| "resolve_values cs [] variables = Some []"
| "resolve_values cs ((k, v) # d) variables =
     (case resolve_variable cs v variables 10 of
        None \<Rightarrow> None
      | Some v' \<Rightarrow>
          (case resolve_values cs d variables of None \<Rightarrow> None | Some d' \<Rightarrow> Some ((k, v') # d')))"
| "resolve_items cs [] variables = Some []"
| "resolve_items cs (x # xs) variables =
     (case resolve_variable cs x variables 10 of
        None \<Rightarrow> None
      | Some x' \<Rightarrow>
          (case resolve_items cs xs variables of None \<Rightarrow> None | Some xs' \<Rightarrow> Some (x' # xs')))"

text \<open>The call with the default \<^verbatim>\<open>max_depth = 10\<close>.\<close>

abbreviation resolve :: "(Value \<Rightarrow> string) \<Rightarrow> Value \<Rightarrow> dict \<Rightarrow> Value option" where
  "resolve cs value variables \<equiv> resolve_variable cs value variables 10"

section \<open>Termination of the resolver\<close>

text \<open>
  With the variables \<^verbatim>\<open>{"x": "<<x>>"}\<close> and the string \<^verbatim>\<open>a<<x>>\<close>, one round of the
  \<^verbatim>\<open>while True\<close> loop finds the match \<^verbatim>\<open><<x>>\<close>, replaces it by the value of \<open>x\<close>,
  which is the same text, sets \<^verbatim>\<open>made_replacement\<close> and starts again on the same
  string: the loop has no exit.
\<close>

lemma resolve_inner_self_loop:
  "resolve_inner cs [(VStr ''x'', VStr ''<<x>>'')] ''a<<x>>'' = None"
proof -
  have "\<not> (variables = [(VStr ''x'', VStr ''<<x>>'')] \<and> result = ''a<<x>>'')"
    if r: "resolve_inner cs variables result = Some y" for variables result y
  proof (rule resolve_inner.raw_induct
      [where P = "\<lambda>cs variables result y.
         \<not> (variables = [(VStr ''x'', VStr ''<<x>>'')] \<and> result = ''a<<x>>'')", OF _ r])
    fix f cs variables result y
    assume ih: "\<And>cs variables result y. f cs variables result = Some y \<Longrightarrow>
        \<not> (variables = [(VStr ''x'', VStr ''<<x>>'')] \<and> result = ''a<<x>>'')"
      and body: "(let matches = innermost_matches result
         in if matches = [] then Some (Inr result)
            else case subst_matches cs variables matches result False of
                   Inl var_value \<Rightarrow> Some (Inl var_value)
                 | Inr (result', made_replacement) \<Rightarrow>
                     if \<not> made_replacement then Some (Inr result')
                     else f cs variables result') = Some y"
    show "\<not> (variables = [(VStr ''x'', VStr ''<<x>>'')] \<and> result = ''a<<x>>'')"
    proof
      assume a: "variables = [(VStr ''x'', VStr ''<<x>>'')] \<and> result = ''a<<x>>''"
      have m: "innermost_matches ''a<<x>>'' = [''x'']"
        by code_simp
      have s: "subst_matches cs [(VStr ''x'', VStr ''<<x>>'')] [''x''] ''a<<x>>'' False
          = Inr (''a<<x>>'', True)"
        by (simp add: key_eq_def)
      from body a m s have "f cs variables result = Some y"
        by simp
      with ih a show False by blast
    qed
  qed
  then show ?thesis
    by (cases "resolve_inner cs [(VStr ''x'', VStr ''<<x>>'')] ''a<<x>>''") auto
qed

text \<open>
  C1 (the resolver returns on every input, the loop being bounded by \<^verbatim>\<open>max_depth\<close>
  iterations, also for a variable whose value contains its own placeholder): on the
  input above the call with \<^verbatim>\<open>max_depth = 10\<close> does not return. The bound counts the
  iterations of the outer \<^verbatim>\<open>for\<close> loop only; the first of them never ends.
\<close>

theorem C1_resolve_variable_diverges:
  "resolve_variable cs (VStr ''a<<x>>'') [(VStr ''x'', VStr ''<<x>>'')] 10 = None"
  by (simp add: resolve_inner_self_loop eval_nat_numeral)

section \<open>Placeholders and their substitution\<close>














section \<open>The conditional evaluator\<close>

subsection \<open>Equality of values\<close>

text \<open>
  \<^verbatim>\<open>a == b\<close>: a boolean equals the integer 0 or 1 it stands for; lists are equal item
  by item; dictionaries are equal when they have the same number of entries and every
  key of the one is a key of the other with an equal value, in any order (the equality
  of the built-in \<^verbatim>\<open>dict\<close>).
\<close>

fun py_eq :: "Value \<Rightarrow> Value \<Rightarrow> bool"
  and py_eq_items :: "Value list \<Rightarrow> Value list \<Rightarrow> bool"
  and py_eq_entries :: "dict \<Rightarrow> dict \<Rightarrow> bool" where
  "py_eq VNull b = (b = VNull)"
| "py_eq (VBool x) b =
     (case b of VBool y \<Rightarrow> x = y | VInt j \<Rightarrow> j = (if x then 1 else 0) | _ \<Rightarrow> False)"
| "py_eq (VInt i) b =
     (case b of VInt j \<Rightarrow> i = j | VBool y \<Rightarrow> i = (if y then 1 else 0) | _ \<Rightarrow> False)"
| "py_eq (VStr s) b = (b = VStr s)"
| "py_eq (VSeq xs) b = (case b of VSeq ys \<Rightarrow> py_eq_items xs ys | _ \<Rightarrow> False)"
| "py_eq (VMap d) b =
     (case b of VMap e \<Rightarrow> length d = length e \<and> py_eq_entries d e | _ \<Rightarrow> False)"
| "py_eq_items [] ys = (ys = [])"
| "py_eq_items (x # xs) ys =
     (case ys of [] \<Rightarrow> False | y # ys' \<Rightarrow> py_eq x y \<and> py_eq_items xs ys')"
| "py_eq_entries [] e = True"
| "py_eq_entries ((k, v) # d) e =
     ((case dict_get e k of None \<Rightarrow> False | Some v' \<Rightarrow> py_eq v v') \<and> py_eq_entries d e)"

text \<open>\<^verbatim>\<open>x in xs\<close> on a list.\<close>

fun py_in :: "Value \<Rightarrow> Value list \<Rightarrow> bool" where
  "py_in x [] = False"
| "py_in x (y # ys) = (py_eq x y \<or> py_in x ys)"

text \<open>\<^verbatim>\<open>s.lower()\<close>, on the letters of ASCII.\<close>

definition lower_char :: "char \<Rightarrow> char" where
  "lower_char c =
     (let n = (of_char c :: nat) in if 65 \<le> n \<and> n \<le> 90 then char_of (n + 32) else c)"

definition str_lower :: "string \<Rightarrow> string" where
  "str_lower s = map lower_char s"

subsection \<open>One check, one clause, one conditional\<close>

text \<open>
  The body of \<^verbatim>\<open>for check_key, check_value in condition.items()\<close> for a key other than
  \<^verbatim>\<open>value\<close>: \<open>Inr True\<close> when the check passes and the loop goes on, \<open>Inr False\<close>
  when it sets \<^verbatim>\<open>condition_met = False\<close> and breaks. A key that is not a string has no
  \<^verbatim>\<open>endswith\<close>: AttributeError.
\<close>

definition eval_check ::
  "(Value \<Rightarrow> string) \<Rightarrow> dict \<Rightarrow> Value \<Rightarrow> Value \<Rightarrow> (py_error + bool) option" where
  "eval_check cs variables check_key0 check_value =
     (case resolve cs check_key0 variables of
        None \<Rightarrow> None
      | Some resolved_check_key \<Rightarrow>
          (case (case resolved_check_key of VStr s \<Rightarrow> VStr s | _ \<Rightarrow> check_key0) of
             VStr check_key \<Rightarrow>
               if str_endswith check_key ''.exists'' then
                 (let var_name0 = take (length check_key - 7) check_key in
                  case resolve cs (VStr var_name0) variables of
                    None \<Rightarrow> None
                  | Some resolved_var_name \<Rightarrow>
                      (let var_name = (case resolved_var_name of VStr s \<Rightarrow> s | _ \<Rightarrow> var_name0);
                           var_value = (case dict_get variables (VStr var_name) of
                                          None \<Rightarrow> VNull | Some v \<Rightarrow> v);
                           var_exists = (var_value \<noteq> VNull \<and>
                             \<not> (case var_value of
                                  VStr s \<Rightarrow> str_contains ''<<'' s \<and> str_contains ''>>'' s
                                | _ \<Rightarrow> False));
                           expected = (case check_value of
                                         VBool b \<Rightarrow> b
                                       | _ \<Rightarrow> str_lower (py_str cs check_value) = ''true'')
                       in Some (Inr (var_exists = expected))))
               else if str_endswith check_key ''.not'' then
                 (let var_name = take (length check_key - 4) check_key in
                  case dict_get variables (VStr var_name) of
                    None \<Rightarrow> Some (Inr True)
                  | Some var_val \<Rightarrow>
                      (case check_value of
                         VSeq xs \<Rightarrow> Some (Inr (\<not> py_in var_val xs))
                       | _ \<Rightarrow> Some (Inr (py_str cs var_val \<noteq> py_str cs check_value))))
               else
                 (case dict_get variables (VStr check_key) of
                    Some var_val \<Rightarrow>
                      (case check_value of
                         VSeq xs \<Rightarrow> Some (Inr (py_in var_val xs))
                       | _ \<Rightarrow> Some (Inr (py_str cs var_val = py_str cs check_value)))
                  | None \<Rightarrow> Some (Inr False))
           | _ \<Rightarrow> Some (Inl AttributeError)))"

text \<open>
  The loop over the entries of one clause: the value of \<^verbatim>\<open>condition_met\<close> when the
  loop is left.
\<close>

fun condition_met :: "(Value \<Rightarrow> string) \<Rightarrow> dict \<Rightarrow> dict \<Rightarrow> (py_error + bool) option" where
  "condition_met cs variables [] = Some (Inr True)"
| "condition_met cs variables ((check_key, check_value) # condition) =
     (if check_key = VStr ''value'' then condition_met cs variables condition
      else case eval_check cs variables check_key check_value of
             None \<Rightarrow> None
           | Some (Inl e) \<Rightarrow> Some (Inl e)
           | Some (Inr ok) \<Rightarrow>
               if ok then condition_met cs variables condition else Some (Inr False))"

text \<open>\<^verbatim>\<open>d.get(k)\<close>, which is \<^verbatim>\<open>None\<close> for a key that is not there.\<close>

definition dict_get_none :: "dict \<Rightarrow> Value \<Rightarrow> Value" where
  "dict_get_none d k = (case dict_get d k of None \<Rightarrow> VNull | Some v \<Rightarrow> v)"

text \<open>
  The loop \<^verbatim>\<open>for condition in conditions\<close>: the value of \<^verbatim>\<open>resolved_value\<close> after
  it. A clause that is not a dictionary is passed over.
\<close>

fun select_value ::
  "(Value \<Rightarrow> string) \<Rightarrow> dict \<Rightarrow> Value \<Rightarrow> Value list \<Rightarrow> (py_error + Value) option" where
  "select_value cs variables resolved_value [] = Some (Inr resolved_value)"
| "select_value cs variables resolved_value (VMap condition # conditions) =
     (case condition_met cs variables condition of
        None \<Rightarrow> None
      | Some (Inl e) \<Rightarrow> Some (Inl e)
      | Some (Inr met) \<Rightarrow>
          if met then Some (Inr (dict_get_none condition (VStr ''value'')))
          else select_value cs variables resolved_value conditions)"
| "select_value cs variables resolved_value (c # conditions) =
     select_value cs variables resolved_value conditions"

text \<open>
  What \<^verbatim>\<open>for condition in conditions\<close> iterates over: \<^verbatim>\<open>cond_def.get("conditions", [])\<close>,
  a single dictionary wrapped into a list. A string yields its characters (none of
  them a dictionary); \<^verbatim>\<open>None\<close>, a boolean and a number are not iterable.
\<close>

fun clauses_of :: "Value option \<Rightarrow> py_error + Value list" where
  "clauses_of None = Inr []"
| "clauses_of (Some (VMap c)) = Inr [VMap c]"
| "clauses_of (Some (VSeq xs)) = Inr xs"
| "clauses_of (Some (VStr s)) = Inr (map (\<lambda>c. VStr [c]) s)"
| "clauses_of (Some v) = Inl TypeError"

text \<open>
  The body of the loop of \<^verbatim>\<open>evaluate_conditionals\<close> for one conditional, from
  \<^verbatim>\<open>default_value = cond_def.get("default")\<close> to \<^verbatim>\<open>final_value\<close>.
\<close>

definition evaluate_conditional ::
  "(Value \<Rightarrow> string) \<Rightarrow> dict \<Rightarrow> dict \<Rightarrow> (py_error + Value) option" where
  "evaluate_conditional cs cond_def variables =
     (let default_value = dict_get_none cond_def (VStr ''default'') in
      case clauses_of (dict_get cond_def (VStr ''conditions'')) of
        Inl e \<Rightarrow> Some (Inl e)
      | Inr conditions \<Rightarrow>
          (case select_value cs variables default_value conditions of
             None \<Rightarrow> None
           | Some (Inl e) \<Rightarrow> Some (Inl e)
           | Some (Inr resolved_value) \<Rightarrow>
               (case resolve cs resolved_value variables of
                  None \<Rightarrow> None
                | Some final_value \<Rightarrow> Some (Inr final_value))))"

text \<open>
  \<^verbatim>\<open>evaluate_conditionals\<close>: the loop over the conditionals, with the dictionary
  \<^verbatim>\<open>results\<close> built so far.
\<close>

fun evaluate_loop ::
  "(Value \<Rightarrow> string) \<Rightarrow> dict \<Rightarrow> dict \<Rightarrow> dict \<Rightarrow> (py_error + dict) option" where
  "evaluate_loop cs [] variables results = Some (Inr results)"
| "evaluate_loop cs ((cond_name, VMap cond_def) # conditionals) variables results =
     (case resolve cs cond_name variables of
        None \<Rightarrow> None
      | Some resolved_cond_name \<Rightarrow>
          (let cond_name' = (case resolved_cond_name of VStr s \<Rightarrow> VStr s | _ \<Rightarrow> cond_name) in
           case evaluate_conditional cs cond_def variables of
             None \<Rightarrow> None
           | Some (Inl e) \<Rightarrow> Some (Inl e)
           | Some (Inr final_value) \<Rightarrow>
               evaluate_loop cs conditionals variables (dict_set results cond_name' final_value)))"
| "evaluate_loop cs ((cond_name, cond_def) # conditionals) variables results =
     evaluate_loop cs conditionals variables results"

definition evaluate_conditionals ::
  "(Value \<Rightarrow> string) \<Rightarrow> dict \<Rightarrow> dict \<Rightarrow> (py_error + dict) option" where
  "evaluate_conditionals cs conditionals variables = evaluate_loop cs conditionals variables []"



subsection \<open>The first clause that matches\<close>

text \<open>
  A clause does not match when it is passed over (it is not a dictionary) or its loop of
  checks ends with \<^verbatim>\<open>condition_met = False\<close>.
\<close>

definition clause_fails :: "(Value \<Rightarrow> string) \<Rightarrow> dict \<Rightarrow> Value \<Rightarrow> bool" where
  "clause_fails cs variables c =
     (case c of VMap condition \<Rightarrow> condition_met cs variables condition = Some (Inr False) | _ \<Rightarrow> True)"

lemma select_value_skip:
  "list_all (clause_fails cs variables) pre \<Longrightarrow>
   select_value cs variables d (pre @ rest) = select_value cs variables d rest"
proof (induction pre)
  case Nil
  then show ?case by simp
next
  case (Cons c pre)
  then show ?case
    by (cases c) (simp_all add: clause_fails_def)
qed

lemma select_value_first_match:
  assumes "list_all (clause_fails cs variables) pre"
    and "condition_met cs variables condition = Some (Inr True)"
  shows "select_value cs variables d (pre @ VMap condition # post)
    = Some (Inr (dict_get_none condition (VStr ''value'')))"
  using assms by (simp add: select_value_skip)

lemma select_value_no_match:
  assumes "list_all (clause_fails cs variables) conditions"
  shows "select_value cs variables d conditions = Some (Inr d)"
  using select_value_skip [OF assms, of d "[]"] by simp

text \<open>
  C4 (evaluation starts from the default, scans the clauses in declared order, and the
  first clause all of whose checks pass gives the result, whatever the later clauses
  are; with no matching clause the default is the result): when the clauses before a
  clause do not match and the clause does, the conditional evaluates to the resolution
  of that clause's \<^verbatim>\<open>value\<close> entry, for any clauses \<open>post\<close> after it; when no clause
  matches, it evaluates to the resolution of \<^verbatim>\<open>default\<close>.
\<close>

theorem C4_first_matching_clause_wins:
  assumes "clauses_of (dict_get cond_def (VStr ''conditions'')) = Inr conditions"
  shows "(list_all (clause_fails cs variables) pre \<and>
          condition_met cs variables condition = Some (Inr True) \<and>
          conditions = pre @ VMap condition # post \<longrightarrow>
          evaluate_conditional cs cond_def variables
            = map_option Inr (resolve cs (dict_get_none condition (VStr ''value'')) variables)) \<and>
         (list_all (clause_fails cs variables) conditions \<longrightarrow>
          evaluate_conditional cs cond_def variables
            = map_option Inr (resolve cs (dict_get_none cond_def (VStr ''default'')) variables))"
  using assms
  by (auto simp: evaluate_conditional_def select_value_first_match select_value_no_match
      split: option.splits)


theorem C4_first_matching_clause_wins_witness:
  "condition_met (\<lambda>_. []) [(VStr ''a'', VInt 1)]
     [(VStr ''a'', VStr ''1''), (VStr ''value'', VStr ''first'')] = Some (Inr True) \<and>
   condition_met (\<lambda>_. []) [(VStr ''a'', VInt 1)]
     [(VStr ''a'', VSeq [VInt 1, VInt 2]), (VStr ''value'', VStr ''second'')] = Some (Inr True) \<and>
   evaluate_conditional (\<lambda>_. [])
     [(VStr ''default'', VStr ''d''),
      (VStr ''conditions'', VSeq
        [VMap [(VStr ''a'', VStr ''1''), (VStr ''value'', VStr ''first'')],
         VMap [(VStr ''a'', VSeq [VInt 1, VInt 2]), (VStr ''value'', VStr ''second'')]])]
     [(VStr ''a'', VInt 1)] = Some (Inr (VStr ''first'')) \<and>
   evaluate_conditional (\<lambda>_. [])
     [(VStr ''default'', VStr ''d''),
      (VStr ''conditions'', VSeq
        [VMap [(VStr ''a'', VStr ''2''), (VStr ''value'', VStr ''first'')]])]
     [(VStr ''a'', VInt 1)] = Some (Inr (VStr ''d''))"
proof -
  let ?vars = "[(VStr ''a'', VInt 1)]"
  let ?c1 = "[(VStr ''a'', VStr ''1''), (VStr ''value'', VStr ''first'')]"
  let ?c2 = "[(VStr ''a'', VSeq [VInt 1, VInt 2]), (VStr ''value'', VStr ''second'')]"
  let ?c3 = "[(VStr ''a'', VStr ''2''), (VStr ''value'', VStr ''first'')]"
  let ?d1 = "[(VStr ''default'', VStr ''d''), (VStr ''conditions'', VSeq [VMap ?c1, VMap ?c2])]"
  let ?d2 = "[(VStr ''default'', VStr ''d''), (VStr ''conditions'', VSeq [VMap ?c3])]"
  have m1: "condition_met (\<lambda>_. []) ?vars ?c1 = Some (Inr True)"
    by code_simp
  have m2: "condition_met (\<lambda>_. []) ?vars ?c2 = Some (Inr True)"
    by code_simp
  have m3: "list_all (clause_fails (\<lambda>_. []) ?vars) [VMap ?c3]"
    by code_simp
  have k1: "clauses_of (dict_get ?d1 (VStr ''conditions'')) = Inr [VMap ?c1, VMap ?c2]"
    by code_simp
  have k2: "clauses_of (dict_get ?d2 (VStr ''conditions'')) = Inr [VMap ?c3]"
    by code_simp
  have r1: "resolve (\<lambda>_. []) (dict_get_none ?c1 (VStr ''value'')) ?vars = Some (VStr ''first'')"
    by code_simp
  have r2: "resolve (\<lambda>_. []) (dict_get_none ?d2 (VStr ''default'')) ?vars = Some (VStr ''d'')"
    by code_simp
  have e1: "evaluate_conditional (\<lambda>_. []) ?d1 ?vars = Some (Inr (VStr ''first''))"
    using C4_first_matching_clause_wins [OF k1, of "\<lambda>_. []" ?vars "[]" ?c1 "[VMap ?c2]",
        THEN conjunct1] m1 r1
    by simp
  have e2: "evaluate_conditional (\<lambda>_. []) ?d2 ?vars = Some (Inr (VStr ''d''))"
    using C4_first_matching_clause_wins [OF k2, of "\<lambda>_. []" ?vars "[]" "[]" "[]",
        THEN conjunct2] m3 r2
    by simp
  from m1 m2 e1 e2 show ?thesis
    by blast
qed

section \<open>The template processor\<close>

text \<open>The test \<^verbatim>\<open>isinstance(v, str) and "<<" in v\<close>.\<close>

fun is_unresolved :: "Value \<Rightarrow> bool" where
  "is_unresolved (VStr s) = str_contains ''<<'' s"
| "is_unresolved v = False"

text \<open>
  The loop over \<^verbatim>\<open>template_def["default"]\<close> before the conditionals: a default is set
  under its resolved key unless a variable of that name is there. Looking an unhashable
  resolved key up raises TypeError.
\<close>

fun merge_defaults ::
  "(Value \<Rightarrow> string) \<Rightarrow> dict \<Rightarrow> dict \<Rightarrow> (py_error + dict) option" where
  "merge_defaults cs [] variables = Some (Inr variables)"
| "merge_defaults cs ((dk, dv) # defaults) variables =
     (case resolve cs dk variables of
        None \<Rightarrow> None
      | Some resolved_key \<Rightarrow>
          if \<not> hashable resolved_key then Some (Inl TypeError)
          else if \<not> dict_has variables resolved_key
            then merge_defaults cs defaults (dict_set variables resolved_key dv)
          else merge_defaults cs defaults variables)"

text \<open>
  The loop \<^verbatim>\<open>for vk, vv in list(variables.items())\<close> that resolves values, the same
  text in both fixed-point phases. The items are those of the dictionary before the
  loop; every value is resolved against the dictionary as it is by then.
\<close>

fun reresolve_values :: "(Value \<Rightarrow> string) \<Rightarrow> dict \<Rightarrow> dict \<Rightarrow> dict option" where
  "reresolve_values cs [] variables = Some variables"
| "reresolve_values cs ((vk, vv) # items) variables =
     (if is_unresolved vv then
        (case resolve cs vv variables of
           None \<Rightarrow> None
         | Some resolved \<Rightarrow> reresolve_values cs items (dict_set variables vk resolved))
      else reresolve_values cs items variables)"

text \<open>
  The loop of the first phase that builds \<^verbatim>\<open>resolved_vars\<close>: a key with \<^verbatim>\<open><<\<close> in it
  is resolved and its entry stored under the new key; when resolution leaves the key as
  it is, the entry is not stored at all.
\<close>

fun rekey :: "(Value \<Rightarrow> string) \<Rightarrow> dict \<Rightarrow> dict \<Rightarrow> dict \<Rightarrow> (py_error + dict) option" where
  "rekey cs [] variables resolved_vars = Some (Inr resolved_vars)"
| "rekey cs ((vk, vv) # items) variables resolved_vars =
     (if is_unresolved vk then
        (case resolve cs vk variables of
           None \<Rightarrow> None
         | Some resolved_key \<Rightarrow>
             if resolved_key \<noteq> vk then
               (if hashable resolved_key
                  then rekey cs items variables (dict_set resolved_vars resolved_key vv)
                else Some (Inl TypeError))
             else rekey cs items variables resolved_vars)
      else rekey cs items variables (dict_set resolved_vars vk vv))"

text \<open>One pass of the first phase, and the loop \<^verbatim>\<open>for _ in range(5)\<close> around it.\<close>

definition first_phase_pass :: "(Value \<Rightarrow> string) \<Rightarrow> dict \<Rightarrow> (py_error + dict) option" where
  "first_phase_pass cs variables =
     (case reresolve_values cs variables variables of
        None \<Rightarrow> None
      | Some variables' \<Rightarrow> rekey cs variables' variables' [])"

fun first_phase :: "(Value \<Rightarrow> string) \<Rightarrow> nat \<Rightarrow> dict \<Rightarrow> (py_error + dict) option" where
  "first_phase cs 0 variables = Some (Inr variables)"
| "first_phase cs (Suc n) variables =
     (case first_phase_pass cs variables of
        None \<Rightarrow> None
      | Some (Inl e) \<Rightarrow> Some (Inl e)
      | Some (Inr variables') \<Rightarrow>
          if py_eq (VMap variables') (VMap variables) then Some (Inr variables')
          else first_phase cs n variables')"

text \<open>One pass of the second phase (after the conditionals), and its loop.\<close>

definition second_phase_pass :: "(Value \<Rightarrow> string) \<Rightarrow> dict \<Rightarrow> dict option" where
  "second_phase_pass cs variables = reresolve_values cs variables variables"

fun second_phase :: "(Value \<Rightarrow> string) \<Rightarrow> nat \<Rightarrow> dict \<Rightarrow> dict option" where
  "second_phase cs 0 variables = Some variables"
| "second_phase cs (Suc n) variables =
     (case second_phase_pass cs variables of
        None \<Rightarrow> None
      | Some variables' \<Rightarrow>
          if py_eq (VMap variables') (VMap variables) then Some variables'
          else second_phase cs n variables')"

text \<open>
  The loop over \<^verbatim>\<open>template_def["default"]\<close> after the conditionals: a default whose
  value has \<^verbatim>\<open><<\<close> in it is resolved again and stored when the variable is not there,
  is \<^verbatim>\<open>None\<close> or is itself unresolved.
\<close>

fun remerge_defaults ::
  "(Value \<Rightarrow> string) \<Rightarrow> dict \<Rightarrow> dict \<Rightarrow> (py_error + dict) option" where
  "remerge_defaults cs [] variables = Some (Inr variables)"
| "remerge_defaults cs ((dk, dv) # defaults) variables =
     (case resolve cs dk variables of
        None \<Rightarrow> None
      | Some resolved_key \<Rightarrow>
          if is_unresolved dv then
            (case resolve cs dv variables of
               None \<Rightarrow> None
             | Some resolved_value \<Rightarrow>
                 if resolved_value = VNull then remerge_defaults cs defaults variables
                 else if \<not> hashable resolved_key then Some (Inl TypeError)
                 else if \<not> dict_has variables resolved_key
                         \<or> dict_get_none variables resolved_key = VNull
                         \<or> is_unresolved (dict_get_none variables resolved_key)
                   then remerge_defaults cs defaults (dict_set variables resolved_key resolved_value)
                 else remerge_defaults cs defaults variables)
          else remerge_defaults cs defaults variables)"

text \<open>
  The loop over the template's \<^verbatim>\<open>overlay\<close> mapping, with \<^verbatim>\<open>resolved_overlay\<close> as built
  so far. \<open>store_entry\<close> is the assignment \<^verbatim>\<open>resolved_overlay[resolved_key] = resolved_value\<close>.
\<close>

definition keeps_entry :: "Value \<Rightarrow> Value \<Rightarrow> bool" where
  "keeps_entry ok resolved_value =
     (if ok = VStr ''name'' then resolved_value \<noteq> VNull
      else resolved_value \<noteq> VNull \<and> \<not> is_unresolved resolved_value)"

fun resolve_overlay ::
  "(Value \<Rightarrow> string) \<Rightarrow> dict \<Rightarrow> dict \<Rightarrow> dict \<Rightarrow> (py_error + dict) option" where
  "resolve_overlay cs [] variables resolved_overlay = Some (Inr resolved_overlay)"
| "resolve_overlay cs ((ok, ov) # overlay_def) variables resolved_overlay =
     (case resolve cs ok variables of
        None \<Rightarrow> None
      | Some resolved_key \<Rightarrow>
          (case resolve cs ov variables of
             None \<Rightarrow> None
           | Some resolved_value \<Rightarrow>
               if keeps_entry ok resolved_value then
                 (if hashable resolved_key
                    then resolve_overlay cs overlay_def variables
                           (dict_set resolved_overlay resolved_key resolved_value)
                  else Some (Inl TypeError))
               else resolve_overlay cs overlay_def variables resolved_overlay))"

text \<open>Truth value of an object, as \<^verbatim>\<open>if not overlay_def\<close> tests it.\<close>

fun truthy :: "Value \<Rightarrow> bool" where
  "truthy VNull = False"
| "truthy (VBool b) = b"
| "truthy (VInt i) = (i \<noteq> 0)"
| "truthy (VStr s) = (s \<noteq> [])"
| "truthy (VMap d) = (d \<noteq> [])"
| "truthy (VSeq xs) = (xs \<noteq> [])"

text \<open>
  The variables of \<^verbatim>\<open>process_template\<close> when it reaches the overlay: the seed, the
  defaults, the first phase, the conditionals, the defaults again, the second phase.
\<close>

definition final_variables ::
  "(Value \<Rightarrow> string) \<Rightarrow> dict \<Rightarrow> dict \<Rightarrow> Value \<Rightarrow> (py_error + dict) option" where
  "final_variables cs template_def user_variables key =
     (let variables = dict_set user_variables (VStr ''key'') key in
      case (case dict_get template_def (VStr ''default'') of
              Some (VMap defaults) \<Rightarrow> merge_defaults cs defaults variables
            | _ \<Rightarrow> Some (Inr variables)) of
        None \<Rightarrow> None
      | Some (Inl e) \<Rightarrow> Some (Inl e)
      | Some (Inr variables1) \<Rightarrow>
      (case first_phase cs 5 variables1 of
        None \<Rightarrow> None
      | Some (Inl e) \<Rightarrow> Some (Inl e)
      | Some (Inr variables2) \<Rightarrow>
      (case (case dict_get template_def (VStr ''conditionals'') of
              Some (VMap conditionals) \<Rightarrow>
                (case evaluate_conditionals cs conditionals variables2 of
                   None \<Rightarrow> None
                 | Some (Inl e) \<Rightarrow> Some (Inl e)
                 | Some (Inr conditional_results) \<Rightarrow>
                     Some (Inr (dict_update variables2 conditional_results)))
            | _ \<Rightarrow> Some (Inr variables2)) of
        None \<Rightarrow> None
      | Some (Inl e) \<Rightarrow> Some (Inl e)
      | Some (Inr variables3) \<Rightarrow>
      (case (case dict_get template_def (VStr ''default'') of
              Some (VMap defaults) \<Rightarrow> remerge_defaults cs defaults variables3
            | _ \<Rightarrow> Some (Inr variables3)) of
        None \<Rightarrow> None
      | Some (Inl e) \<Rightarrow> Some (Inl e)
      | Some (Inr variables4) \<Rightarrow>
      (case second_phase cs 5 variables4 of
        None \<Rightarrow> None
      | Some variables5 \<Rightarrow> Some (Inr variables5))))))"

text \<open>
  \<^verbatim>\<open>process_template(template_name, template_def, user_variables, key)\<close>. An overlay
  section that is true and not a dictionary has no \<^verbatim>\<open>items\<close>: AttributeError.
\<close>

definition process_template ::
  "(Value \<Rightarrow> string) \<Rightarrow> Value \<Rightarrow> dict \<Rightarrow> dict \<Rightarrow> Value \<Rightarrow> (py_error + dict) option" where
  "process_template cs template_name template_def user_variables key =
     (case final_variables cs template_def user_variables key of
        None \<Rightarrow> None
      | Some (Inl e) \<Rightarrow> Some (Inl e)
      | Some (Inr variables) \<Rightarrow>
          (case dict_get template_def (VStr ''overlay'') of
             None \<Rightarrow> Some (Inr [])
           | Some overlay_def \<Rightarrow>
               if \<not> truthy overlay_def then Some (Inr [])
               else (case overlay_def of
                       VMap od \<Rightarrow> resolve_overlay cs od variables []
                     | _ \<Rightarrow> Some (Inl AttributeError))))"

section \<open>Properties of the template processor\<close>


subsection \<open>Facts about dictionaries\<close>







subsection \<open>The overlay loop\<close>


text \<open>A string in which the pattern finds a placeholder meets the code's test.\<close>

lemma placeholder_is_unresolved:
  "innermost_matches s \<noteq> [] \<Longrightarrow> is_unresolved (VStr s)"
proof (induction s rule: innermost_matches.induct)
  case 1
  then show ?case by simp
next
  case (2 c cs)
  show ?case
  proof (cases "match_here (c # cs)")
    case None
    with 2 show ?thesis
      by simp
  next
    case (Some m)
    then have "take 2 (c # cs) = ''<<''"
      by (auto simp: match_here_def split: if_splits)
    then show ?thesis
      by simp
  qed
qed






subsection \<open>The variable \<open>key\<close>\<close>



subsection \<open>The two fixed-point phases\<close>







section \<open>The template library loader\<close>

text \<open>
  \<^verbatim>\<open>load_templates\<close> reads the file system and the object's \<^verbatim>\<open>_template_cache\<close>.
  The file system is a function from the path the code computes to what is found
  there: no file, a file that \<^verbatim>\<open>open\<close> or \<^verbatim>\<open>yaml.load\<close> raises on, or the document
  the loader returns. The cache is passed in and returned. A relative source is looked
  up in \<^verbatim>\<open>defaults_dir\<close>, any other relative path from the working directory;
  \<^verbatim>\<open>is_absolute\<close> is that of POSIX paths.
\<close>

datatype file_state = Missing | Unreadable | Parsed Value

datatype fs_path = InDefaults string | Absolute string | Relative string

type_synonym file_system = "fs_path \<Rightarrow> file_state"

type_synonym template_cache = "string \<rightharpoonup> Value"

definition is_absolute :: "string \<Rightarrow> bool" where
  "is_absolute s = (take 1 s = ''/'')"

definition template_path_of :: "string \<Rightarrow> fs_path" where
  "template_path_of template_source =
     (if template_source = ''templates'' then InDefaults ''templates.yml''
      else if \<not> is_absolute template_source then InDefaults template_source
      else Absolute template_source)"

text \<open>
  \<^verbatim>\<open>templates = data.get("templates", {}) if data else {}\<close>: a document that is true
  and not a dictionary has no \<^verbatim>\<open>get\<close>.
\<close>

definition templates_of :: "Value \<Rightarrow> py_error + Value" where
  "templates_of data =
     (if \<not> truthy data then Inr (VMap [])
      else case data of
             VMap d \<Rightarrow> (case dict_get d (VStr ''templates'') of
                          None \<Rightarrow> Inr (VMap []) | Some templates \<Rightarrow> Inr templates)
           | _ \<Rightarrow> Inl AttributeError)"

text \<open>
  \<^verbatim>\<open>load_templates(template_source)\<close>: the result and the cache after the call. The
  handler \<^verbatim>\<open>except Exception\<close> turns every exception of the \<^verbatim>\<open>try\<close> block into the
  result \<^verbatim>\<open>{}\<close>; the cache is written on the success path only.
\<close>

definition load_templates ::
  "file_system \<Rightarrow> template_cache \<Rightarrow> string \<Rightarrow> (py_error + Value) \<times> template_cache" where
  "load_templates fs cache template_source =
     (case cache template_source of
        Some templates \<Rightarrow> (Inr templates, cache)
      | None \<Rightarrow>
          (case fs (template_path_of template_source) of
             Missing \<Rightarrow> (Inr (VMap []), cache)
           | Unreadable \<Rightarrow> (Inr (VMap []), cache)
           | Parsed data \<Rightarrow>
               (case templates_of data of
                  Inl e \<Rightarrow> (Inr (VMap []), cache)
                | Inr templates \<Rightarrow> (Inr templates, cache(template_source \<mapsto> templates)))))"



section \<open>The overlay file expander\<close>

subsection \<open>Shorthand for ratings\<close>

text \<open>
  \<^verbatim>\<open>s.strip()\<close> removes white space at both ends (the white space of ASCII);
  \<open>split_once\<close> is \<^verbatim>\<open>value.split(sep, 1)\<close> on a string that contains the separator.
\<close>

definition is_space :: "char \<Rightarrow> bool" where
  "is_space c = (let n = (of_char c :: nat) in (9 \<le> n \<and> n \<le> 13) \<or> (28 \<le> n \<and> n \<le> 32))"

definition str_strip :: "string \<Rightarrow> string" where
  "str_strip s = rev (dropWhile is_space (rev (dropWhile is_space s)))"

fun split_once :: "string \<Rightarrow> string \<Rightarrow> (string \<times> string) option" where
  "split_once sep [] = None"
| "split_once sep (c # cs) =
     (if take (length sep) (c # cs) = sep then Some ([], drop (length sep) (c # cs))
      else case split_once sep cs of None \<Rightarrow> None | Some (a, b) \<Rightarrow> Some (c # a, b))"

text \<open>The body of \<^verbatim>\<open>for i in range(1, 4)\<close> in \<^verbatim>\<open>preprocess_template_variables\<close>.\<close>

definition expand_rating :: "dict \<Rightarrow> nat \<Rightarrow> dict" where
  "expand_rating result i =
     (let key = ''rating'' @ dec_nat i in
      case dict_get result (VStr key) of
        Some (VStr value) \<Rightarrow>
          if str_contains '' / '' value then
            (case split_once '' / '' value of
               Some (rating_type, rating_image) \<Rightarrow>
                 dict_set (dict_set result (VStr key) (VStr (str_strip rating_type)))
                   (VStr (key @ ''_image'')) (VStr (str_strip rating_image))
             | None \<Rightarrow> result)
          else result
      | _ \<Rightarrow> result)"

definition preprocess_template_variables :: "dict \<Rightarrow> dict" where
  "preprocess_template_variables variables = foldl expand_rating variables [1, 2, 3]"

subsection \<open>Variables and conditionals of the external templates\<close>

text \<open>\<^verbatim>\<open>for k, v in d.items(): if k not in variables: variables[k] = v\<close>.\<close>

fun set_defaults :: "dict \<Rightarrow> dict \<Rightarrow> dict" where
  "set_defaults [] variables = variables"
| "set_defaults ((k, v) # d) variables =
     set_defaults d (if \<not> dict_has variables k then dict_set variables k v else variables)"

fun extract_loop :: "dict \<Rightarrow> dict \<Rightarrow> dict \<Rightarrow> dict \<times> dict" where
  "extract_loop [] variables conditionals = (variables, conditionals)"
| "extract_loop ((tk, VMap tv) # tmpl_vars) variables conditionals =
     (if tk = VStr ''default'' then extract_loop tmpl_vars (set_defaults tv variables) conditionals
      else if tk = VStr ''conditionals''
        then extract_loop tmpl_vars variables (dict_update conditionals tv)
      else extract_loop tmpl_vars (dict_set variables tk (VMap tv)) conditionals)"
| "extract_loop ((tk, tv) # tmpl_vars) variables conditionals =
     extract_loop tmpl_vars (dict_set variables tk tv) conditionals"

definition extract_external_template_vars :: "dict \<Rightarrow> dict \<times> dict" where
  "extract_external_template_vars ext_tmpl =
     (case dict_get ext_tmpl (VStr ''template_variables'') of
        Some (VMap tmpl_vars) \<Rightarrow> extract_loop tmpl_vars [] []
      | _ \<Rightarrow> ([], []))"

subsection \<open>One overlay entry\<close>

text \<open>
  \<^verbatim>\<open>d.update(x)\<close> for any object \<open>x\<close>: a dictionary gives its entries; of another
  iterable every item has to be an iterable of two items, the key and the value.
\<close>

fun pair_of :: "Value \<Rightarrow> py_error + Value \<times> Value" where
  "pair_of (VSeq [k, v]) = Inr (k, v)"
| "pair_of (VSeq xs) = Inl ValueError"
| "pair_of (VStr [a, b]) = Inr (VStr [a], VStr [b])"
| "pair_of (VStr s) = Inl ValueError"
| "pair_of (VMap [(k, v), (k', v')]) = Inr (k, k')"
| "pair_of (VMap d) = Inl ValueError"
| "pair_of v = Inl TypeError"

fun update_pairs :: "dict \<Rightarrow> Value list \<Rightarrow> py_error + dict" where
  "update_pairs d [] = Inr d"
| "update_pairs d (x # xs) =
     (case pair_of x of
        Inl e \<Rightarrow> Inl e
      | Inr (k, v) \<Rightarrow> if hashable k then update_pairs (dict_set d k v) xs else Inl TypeError)"

fun py_update :: "dict \<Rightarrow> Value \<Rightarrow> py_error + dict" where
  "py_update d (VMap e) = Inr (dict_update d e)"
| "py_update d (VSeq xs) = update_pairs d xs"
| "py_update d (VStr s) = update_pairs d (map (\<lambda>c. VStr [c]) s)"
| "py_update d v = Inl TypeError"

text \<open>
  The name and the variables of one template call; \<open>None\<close> for a call that is neither
  a dictionary nor a string, which the loop passes over.
\<close>

fun call_parts :: "Value \<Rightarrow> (Value \<times> dict) option" where
  "call_parts (VMap tmpl_call) =
     Some (case dict_get tmpl_call (VStr ''name'') of None \<Rightarrow> VStr ''standard'' | Some n \<Rightarrow> n,
           filter (\<lambda>(k, v). k \<noteq> VStr ''name'') tmpl_call)"
| "call_parts (VStr tmpl_call) = Some (VStr tmpl_call, [])"
| "call_parts v = None"

text \<open>
  The copy of the template that \<^verbatim>\<open>process_template\<close> is given: the first item of a
  list, the external conditionals merged under the template's own.
\<close>

definition effective_template :: "Value \<Rightarrow> dict \<Rightarrow> py_error + dict" where
  "effective_template template_def0 external_conditionals =
     (let template_def = (case template_def0 of VSeq (x # xs) \<Rightarrow> x | _ \<Rightarrow> template_def0);
          effective = (case template_def of VMap d \<Rightarrow> d | _ \<Rightarrow> [])
      in if external_conditionals \<noteq> [] then
           (case dict_get effective (VStr ''conditionals'') of
              Some conditionals \<Rightarrow>
                (case py_update external_conditionals conditionals of
                   Inl e \<Rightarrow> Inl e
                 | Inr merged_conds \<Rightarrow>
                     Inr (dict_set effective (VStr ''conditionals'') (VMap merged_conds)))
            | None \<Rightarrow>
                Inr (dict_set effective (VStr ''conditionals'') (VMap external_conditionals)))
         else Inr effective)"

text \<open>
  The loop \<^verbatim>\<open>for rk, rv in resolved.items()\<close>: a key that is not a string has no
  \<^verbatim>\<open>startswith\<close>.
\<close>

fun merge_resolved :: "dict \<Rightarrow> dict \<Rightarrow> py_error + dict" where
  "merge_resolved [] merged_overlay = Inr merged_overlay"
| "merge_resolved ((VStr rk, rv) # resolved) merged_overlay =
     (if \<not> (take 1 rk = ''_'') \<and> rv \<noteq> VNull
        then merge_resolved resolved (dict_set merged_overlay (VStr rk) rv)
      else merge_resolved resolved merged_overlay)"
| "merge_resolved ((rk, rv) # resolved) merged_overlay = Inl AttributeError"

text \<open>The loop \<^verbatim>\<open>for tmpl_call in template_calls\<close>, with \<^verbatim>\<open>merged_overlay\<close> so far.\<close>

fun apply_templates ::
  "(Value \<Rightarrow> string) \<Rightarrow> dict \<Rightarrow> dict \<Rightarrow> dict \<Rightarrow> Value list \<Rightarrow> dict \<Rightarrow> (py_error + dict) option" where
  "apply_templates cs all_templates external_conditionals overlay_vars [] merged_overlay =
     Some (Inr merged_overlay)"
| "apply_templates cs all_templates external_conditionals overlay_vars (tmpl_call # template_calls)
     merged_overlay =
     (case call_parts tmpl_call of
        None \<Rightarrow>
          apply_templates cs all_templates external_conditionals overlay_vars template_calls
            merged_overlay
      | Some (tmpl_name, tmpl_vars) \<Rightarrow>
          if \<not> hashable tmpl_name then Some (Inl TypeError)
          else
            (case dict_get all_templates tmpl_name of
               None \<Rightarrow>
                 apply_templates cs all_templates external_conditionals overlay_vars template_calls
                   merged_overlay
             | Some template_def \<Rightarrow>
                 (case effective_template template_def external_conditionals of
                    Inl e \<Rightarrow> Some (Inl e)
                  | Inr effective \<Rightarrow>
                      (let combined_vars = dict_update overlay_vars tmpl_vars in
                       case process_template cs tmpl_name effective combined_vars
                              (case dict_get combined_vars (VStr ''key'') of
                                 None \<Rightarrow> VStr [] | Some k \<Rightarrow> k) of
                         None \<Rightarrow> None
                       | Some (Inl e) \<Rightarrow> Some (Inl e)
                       | Some (Inr resolved) \<Rightarrow>
                           (case merge_resolved resolved merged_overlay of
                              Inl e \<Rightarrow> Some (Inl e)
                            | Inr merged_overlay' \<Rightarrow>
                                apply_templates cs all_templates external_conditionals
                                  overlay_vars template_calls merged_overlay')))))"

text \<open>
  The text of \<^verbatim>\<open>_template\<close>: \<^verbatim>\<open>", ".join(...)\<close> over all of \<^verbatim>\<open>template_calls\<close>. An
  item that is not a string (a call without \<^verbatim>\<open>name\<close>, a name that is not a string)
  makes \<^verbatim>\<open>join\<close> raise TypeError.
\<close>

fun call_label :: "(Value \<Rightarrow> string) \<Rightarrow> Value \<Rightarrow> py_error + string" where
  "call_label cs (VMap tmpl_call) =
     (case dict_get tmpl_call (VStr ''name'') of Some (VStr s) \<Rightarrow> Inr s | _ \<Rightarrow> Inl TypeError)"
| "call_label cs tmpl_call = Inr (py_str cs tmpl_call)"

fun call_labels :: "(Value \<Rightarrow> string) \<Rightarrow> Value list \<Rightarrow> py_error + string list" where
  "call_labels cs [] = Inr []"
| "call_labels cs (tmpl_call # template_calls) =
     (case call_label cs tmpl_call of
        Inl e \<Rightarrow> Inl e
      | Inr s \<Rightarrow>
          (case call_labels cs template_calls of Inl e \<Rightarrow> Inl e | Inr ss \<Rightarrow> Inr (s # ss)))"

fun str_join :: "string \<Rightarrow> string list \<Rightarrow> string" where
  "str_join sep [] = []"
| "str_join sep [s] = s"
| "str_join sep (s # ss) = s @ sep @ str_join sep ss"

text \<open>
  The variables of an entry with templates: the user's, the entry's \<^verbatim>\<open>variables\<close> and
  \<^verbatim>\<open>template_variables\<close>, and \<^verbatim>\<open>key\<close> from the entry's name when there is none.
  \<^verbatim>\<open>"-" in overlay_name\<close> raises TypeError on a name that is not a string.
\<close>

definition entry_variables :: "dict \<Rightarrow> Value \<Rightarrow> dict \<Rightarrow> py_error + dict" where
  "entry_variables user_vars overlay_name overlay_def =
     (let vars1 = (case dict_get overlay_def (VStr ''variables'') of
                     Some (VMap d) \<Rightarrow> dict_update user_vars d | _ \<Rightarrow> user_vars);
          overlay_vars = (case dict_get overlay_def (VStr ''template_variables'') of
                     Some (VMap d) \<Rightarrow> dict_update vars1 d | _ \<Rightarrow> vars1)
      in if \<not> dict_has overlay_vars (VStr ''key'') then
           (case overlay_name of
              VStr s \<Rightarrow>
                Inr (dict_set overlay_vars (VStr ''key'')
                  (VStr (if CHR ''-'' \<in> set s
                         then rev (takeWhile (\<lambda>c. c \<noteq> CHR ''-'') (rev s)) else s)))
            | _ \<Rightarrow> Inl TypeError)
         else Inr overlay_vars)"

text \<open>The loop of a direct definition, with \<^verbatim>\<open>resolved\<close> so far.\<close>

fun resolve_direct :: "(Value \<Rightarrow> string) \<Rightarrow> dict \<Rightarrow> dict \<Rightarrow> dict \<Rightarrow> dict option" where
  "resolve_direct cs [] user_vars resolved = Some resolved"
| "resolve_direct cs ((ok, ov) # overlay_config) user_vars resolved =
     (case resolve cs ov user_vars of
        None \<Rightarrow> None
      | Some resolved_value \<Rightarrow>
          if resolved_value \<noteq> VNull
            then resolve_direct cs overlay_config user_vars (dict_set resolved ok resolved_value)
          else resolve_direct cs overlay_config user_vars resolved)"

text \<open>
  The body of \<^verbatim>\<open>for overlay_name, overlay_def in overlays_section.items()\<close> for an
  entry that is a dictionary: the elements it appends to \<^verbatim>\<open>expanded_overlays\<close>.
\<close>

definition expand_entry ::
  "(Value \<Rightarrow> string) \<Rightarrow> dict \<Rightarrow> dict \<Rightarrow> dict \<Rightarrow> Value \<Rightarrow> dict \<Rightarrow> (py_error + Value list) option" where
  "expand_entry cs all_templates external_conditionals user_vars overlay_name overlay_def =
     (case dict_get overlay_def (VStr ''template'') of
        Some template_call \<Rightarrow>
          (let template_calls = (case template_call of VSeq xs \<Rightarrow> xs | _ \<Rightarrow> [template_call]) in
           case entry_variables user_vars overlay_name overlay_def of
             Inl e \<Rightarrow> Some (Inl e)
           | Inr overlay_vars \<Rightarrow>
               (case apply_templates cs all_templates external_conditionals overlay_vars
                       template_calls [] of
                  None \<Rightarrow> None
                | Some (Inl e) \<Rightarrow> Some (Inl e)
                | Some (Inr merged_overlay) \<Rightarrow>
                    if merged_overlay \<noteq> [] then
                      (case call_labels cs template_calls of
                         Inl e \<Rightarrow> Some (Inl e)
                       | Inr labels \<Rightarrow>
                           Some (Inr [VMap (dict_set
                             (dict_set merged_overlay (VStr ''_original_name'') overlay_name)
                             (VStr ''_template'') (VStr (str_join '', '' labels)))]))
                    else Some (Inr [])))
      | None \<Rightarrow>
          (case dict_get overlay_def (VStr ''overlay'') of
             Some (VMap overlay_config) \<Rightarrow>
               (case resolve_direct cs overlay_config user_vars [] of
                  None \<Rightarrow> None
                | Some resolved \<Rightarrow>
                    Some (Inr [VMap (dict_set
                      (dict_set resolved (VStr ''_original_name'') overlay_name)
                      (VStr ''_direct'') (VBool True))]))
           | _ \<Rightarrow> Some (Inr [])))"

subsection \<open>The file\<close>

fun expand_overlays ::
  "(Value \<Rightarrow> string) \<Rightarrow> dict \<Rightarrow> dict \<Rightarrow> dict \<Rightarrow> dict \<Rightarrow> Value list \<Rightarrow> (py_error + Value list) option" where
  "expand_overlays cs all_templates external_conditionals user_vars [] expanded_overlays =
     Some (Inr expanded_overlays)"
| "expand_overlays cs all_templates external_conditionals user_vars
     ((overlay_name, VMap overlay_def) # overlays_section) expanded_overlays =
     (case expand_entry cs all_templates external_conditionals user_vars overlay_name overlay_def of
        None \<Rightarrow> None
      | Some (Inl e) \<Rightarrow> Some (Inl e)
      | Some (Inr appended) \<Rightarrow>
          expand_overlays cs all_templates external_conditionals user_vars overlays_section
            (expanded_overlays @ appended))"
| "expand_overlays cs all_templates external_conditionals user_vars
     ((overlay_name, overlay_def) # overlays_section) expanded_overlays =
     expand_overlays cs all_templates external_conditionals user_vars overlays_section
       expanded_overlays"

text \<open>
  The part of \<^verbatim>\<open>expand_overlay_file\<close> under \<^verbatim>\<open>if "external_templates" in data\<close>, for a
  document that is a dictionary: the external templates, the user variables with the
  external ones as defaults, the external conditionals, and the cache. A source that is
  not a string cannot be made a path: TypeError.
\<close>

definition load_external ::
  "file_system \<Rightarrow> template_cache \<Rightarrow> dict \<Rightarrow> dict \<Rightarrow>
   (py_error + Value \<times> dict \<times> dict) \<times> template_cache" where
  "load_external fs cache data user_vars =
     (case dict_get data (VStr ''external_templates'') of
        Some (VMap ext_tmpl) \<Rightarrow>
          (case (case dict_get ext_tmpl (VStr ''default'') of
                   None \<Rightarrow> VStr ''templates'' | Some s \<Rightarrow> s) of
             VStr template_source \<Rightarrow>
               (case load_templates fs cache template_source of
                  (Inl e, cache') \<Rightarrow> (Inl e, cache')
                | (Inr external_templates, cache') \<Rightarrow>
                    (let (ext_vars, ext_conds) = extract_external_template_vars ext_tmpl in
                     (Inr (external_templates, set_defaults ext_vars user_vars, ext_conds), cache')))
           | _ \<Rightarrow> (Inl TypeError, cache))
      | _ \<Rightarrow> (Inr (VMap [], user_vars, []), cache))"

text \<open>
  \<^verbatim>\<open>expand_overlay_file\<close> from \<^verbatim>\<open>if not data: return []\<close> on. \<^verbatim>\<open>{**a, **b}\<close> raises
  TypeError on an object that is not a mapping; an \<^verbatim>\<open>overlays\<close> section that is not a
  dictionary has no \<^verbatim>\<open>items\<close>; a document that is not a dictionary fails at the
  membership test, at the subscript or at \<^verbatim>\<open>data.get\<close>.
\<close>

definition expand_overlay_data ::
  "(Value \<Rightarrow> string) \<Rightarrow> file_system \<Rightarrow> template_cache \<Rightarrow> Value \<Rightarrow> dict option \<Rightarrow>
   (py_error + Value list) option \<times> template_cache" where
  "expand_overlay_data cs fs cache data0 user_template_variables =
     (if \<not> truthy data0 then (Some (Inr []), cache)
      else case data0 of
        VMap data \<Rightarrow>
          (let user_vars = preprocess_template_variables
                 (case user_template_variables of None \<Rightarrow> [] | Some v \<Rightarrow> v) in
           case load_external fs cache data user_vars of
             (Inl e, cache') \<Rightarrow> (Some (Inl e), cache')
           | (Inr (external_templates, user_vars', external_conditionals), cache') \<Rightarrow>
               (case (external_templates,
                      case dict_get data (VStr ''templates'') of None \<Rightarrow> VMap [] | Some t \<Rightarrow> t) of
                  (VMap ext, VMap local_templates) \<Rightarrow>
                    (case (case dict_get data (VStr ''overlays'') of
                             None \<Rightarrow> VMap [] | Some s \<Rightarrow> s) of
                       VMap overlays_section \<Rightarrow>
                         (expand_overlays cs (dict_update ext local_templates)
                            external_conditionals user_vars' overlays_section [], cache')
                     | _ \<Rightarrow> (Some (Inl AttributeError), cache'))
                | _ \<Rightarrow> (Some (Inl TypeError), cache')))
      | VSeq xs \<Rightarrow>
          (Some (Inl (if py_in (VStr ''external_templates'') xs then TypeError
                      else AttributeError)), cache)
      | VStr s \<Rightarrow>
          (Some (Inl (if str_contains ''external_templates'' s then TypeError
                      else AttributeError)), cache)
      | _ \<Rightarrow> (Some (Inl TypeError), cache))"

text \<open>
  \<^verbatim>\<open>expand_overlay_file(file_path, user_template_variables)\<close>: a missing file and a
  file that cannot be read or parsed give the empty list.
\<close>

definition overlay_path_of :: "string \<Rightarrow> fs_path" where
  "overlay_path_of file_path =
     (if is_absolute file_path then Absolute file_path else Relative file_path)"

definition expand_overlay_file ::
  "(Value \<Rightarrow> string) \<Rightarrow> file_system \<Rightarrow> template_cache \<Rightarrow> string \<Rightarrow> dict option \<Rightarrow>
   (py_error + Value list) option \<times> template_cache" where
  "expand_overlay_file cs fs cache file_path user_template_variables =
     (case fs (overlay_path_of file_path) of
        Missing \<Rightarrow> (Some (Inr []), cache)
      | Unreadable \<Rightarrow> (Some (Inr []), cache)
      | Parsed data \<Rightarrow> expand_overlay_data cs fs cache data user_template_variables)"



section \<open>Properties of the expander\<close>









section \<open>The caller's variables in a store\<close>

text \<open>
  Whether \<^verbatim>\<open>expand_overlay_file\<close> changes the dictionary its caller passes depends on
  which dictionary objects the code writes to. Here the dictionaries of variables that
  the code assigns into live in a store, a list of objects addressed by their index:
  \<^verbatim>\<open>dict(d)\<close> and \<^verbatim>\<open>{}\<close> allocate a new object, \<^verbatim>\<open>d[k] = v\<close> and \<^verbatim>\<open>d.update(e)\<close>
  write to the object at the address of \<open>d\<close>. The functions that only read the mapping
  they are given (\<^verbatim>\<open>resolve_variable\<close>, \<^verbatim>\<open>evaluate_conditionals\<close>) or copy it before
  anything else (\<^verbatim>\<open>process_template\<close>, by \<^verbatim>\<open>variables = dict(user_variables)\<close>, and
  \<^verbatim>\<open>{**overlay_vars, **tmpl_vars}\<close>) are applied to the content read from the store.
\<close>

type_synonym heap = "dict list"

definition alloc :: "heap \<Rightarrow> dict \<Rightarrow> nat \<times> heap" where
  "alloc h d = (length h, h @ [d])"

definition store_set :: "heap \<Rightarrow> nat \<Rightarrow> Value \<Rightarrow> Value \<Rightarrow> heap" where
  "store_set h a k v = h[a := dict_set (h ! a) k v]"

definition store_update :: "heap \<Rightarrow> nat \<Rightarrow> dict \<Rightarrow> heap" where
  "store_update h a e = h[a := dict_update (h ! a) e]"

text \<open>\<^verbatim>\<open>preprocess_template_variables\<close>: \<open>result\<close> is the address of \<^verbatim>\<open>dict(variables)\<close>.\<close>

definition expand_rating_st :: "nat \<Rightarrow> heap \<Rightarrow> nat \<Rightarrow> heap" where
  "expand_rating_st result h i =
     (let key = ''rating'' @ dec_nat i in
      case dict_get (h ! result) (VStr key) of
        Some (VStr value) \<Rightarrow>
          if str_contains '' / '' value then
            (case split_once '' / '' value of
               Some (rating_type, rating_image) \<Rightarrow>
                 store_set (store_set h result (VStr key) (VStr (str_strip rating_type)))
                   result (VStr (key @ ''_image'')) (VStr (str_strip rating_image))
             | None \<Rightarrow> h)
          else h
      | _ \<Rightarrow> h)"

definition preprocess_template_variables_st :: "heap \<Rightarrow> nat \<Rightarrow> nat \<times> heap" where
  "preprocess_template_variables_st h variables =
     (let (result, h1) = alloc h (h ! variables)
      in (result, foldl (expand_rating_st result) h1 [1, 2, 3]))"

text \<open>\<^verbatim>\<open>for ek, ev in ext_vars.items(): if ek not in user_vars: user_vars[ek] = ev\<close>.\<close>

fun set_defaults_st :: "dict \<Rightarrow> nat \<Rightarrow> heap \<Rightarrow> heap" where
  "set_defaults_st [] user_vars h = h"
| "set_defaults_st ((ek, ev) # ext_vars) user_vars h =
     set_defaults_st ext_vars user_vars
       (if \<not> dict_has (h ! user_vars) ek then store_set h user_vars ek ev else h)"

definition load_external_st ::
  "file_system \<Rightarrow> template_cache \<Rightarrow> heap \<Rightarrow> dict \<Rightarrow> nat \<Rightarrow>
   ((py_error + Value \<times> dict) \<times> template_cache) \<times> heap" where
  "load_external_st fs cache h data user_vars =
     (case dict_get data (VStr ''external_templates'') of
        Some (VMap ext_tmpl) \<Rightarrow>
          (case (case dict_get ext_tmpl (VStr ''default'') of
                   None \<Rightarrow> VStr ''templates'' | Some s \<Rightarrow> s) of
             VStr template_source \<Rightarrow>
               (case load_templates fs cache template_source of
                  (Inl e, cache') \<Rightarrow> ((Inl e, cache'), h)
                | (Inr external_templates, cache') \<Rightarrow>
                    (let (ext_vars, ext_conds) = extract_external_template_vars ext_tmpl in
                     ((Inr (external_templates, ext_conds), cache'),
                      set_defaults_st ext_vars user_vars h)))
           | _ \<Rightarrow> ((Inl TypeError, cache), h))
      | _ \<Rightarrow> ((Inr (VMap [], []), cache), h))"

text \<open>The variables of an entry: \<open>overlay_vars\<close> is the address of \<^verbatim>\<open>dict(user_vars)\<close>.\<close>

definition entry_variables_st ::
  "heap \<Rightarrow> nat \<Rightarrow> Value \<Rightarrow> dict \<Rightarrow> (py_error + nat) \<times> heap" where
  "entry_variables_st h user_vars overlay_name overlay_def =
     (let (overlay_vars, h1) = alloc h (h ! user_vars);
          h2 = (case dict_get overlay_def (VStr ''variables'') of
                  Some (VMap d) \<Rightarrow> store_update h1 overlay_vars d | _ \<Rightarrow> h1);
          h3 = (case dict_get overlay_def (VStr ''template_variables'') of
                  Some (VMap d) \<Rightarrow> store_update h2 overlay_vars d | _ \<Rightarrow> h2)
      in if \<not> dict_has (h3 ! overlay_vars) (VStr ''key'') then
           (case overlay_name of
              VStr s \<Rightarrow>
                (Inr overlay_vars,
                 store_set h3 overlay_vars (VStr ''key'')
                  (VStr (if CHR ''-'' \<in> set s
                         then rev (takeWhile (\<lambda>c. c \<noteq> CHR ''-'') (rev s)) else s)))
            | _ \<Rightarrow> (Inl TypeError, h3))
         else (Inr overlay_vars, h3))"

definition expand_entry_st ::
  "(Value \<Rightarrow> string) \<Rightarrow> dict \<Rightarrow> dict \<Rightarrow> heap \<Rightarrow> nat \<Rightarrow> Value \<Rightarrow> dict \<Rightarrow>
   (py_error + Value list) option \<times> heap" where
  "expand_entry_st cs all_templates external_conditionals h user_vars overlay_name overlay_def =
     (case dict_get overlay_def (VStr ''template'') of
        Some template_call \<Rightarrow>
          (let template_calls = (case template_call of VSeq xs \<Rightarrow> xs | _ \<Rightarrow> [template_call]) in
           case entry_variables_st h user_vars overlay_name overlay_def of
             (Inl e, h') \<Rightarrow> (Some (Inl e), h')
           | (Inr overlay_vars, h') \<Rightarrow>
               (case apply_templates cs all_templates external_conditionals (h' ! overlay_vars)
                       template_calls [] of
                  None \<Rightarrow> (None, h')
                | Some (Inl e) \<Rightarrow> (Some (Inl e), h')
                | Some (Inr merged_overlay) \<Rightarrow>
                    if merged_overlay \<noteq> [] then
                      (case call_labels cs template_calls of
                         Inl e \<Rightarrow> (Some (Inl e), h')
                       | Inr labels \<Rightarrow>
                           (Some (Inr [VMap (dict_set
                              (dict_set merged_overlay (VStr ''_original_name'') overlay_name)
                              (VStr ''_template'') (VStr (str_join '', '' labels)))]), h'))
                    else (Some (Inr []), h')))
      | None \<Rightarrow>
          (case dict_get overlay_def (VStr ''overlay'') of
             Some (VMap overlay_config) \<Rightarrow>
               (case resolve_direct cs overlay_config (h ! user_vars) [] of
                  None \<Rightarrow> (None, h)
                | Some resolved \<Rightarrow>
                    (Some (Inr [VMap (dict_set
                       (dict_set resolved (VStr ''_original_name'') overlay_name)
                       (VStr ''_direct'') (VBool True))]), h))
           | _ \<Rightarrow> (Some (Inr []), h)))"

fun expand_overlays_st ::
  "(Value \<Rightarrow> string) \<Rightarrow> dict \<Rightarrow> dict \<Rightarrow> heap \<Rightarrow> nat \<Rightarrow> dict \<Rightarrow> Value list \<Rightarrow>
   (py_error + Value list) option \<times> heap" where
  "expand_overlays_st cs all_templates external_conditionals h user_vars [] expanded_overlays =
     (Some (Inr expanded_overlays), h)"
| "expand_overlays_st cs all_templates external_conditionals h user_vars
     ((overlay_name, VMap overlay_def) # overlays_section) expanded_overlays =
     (case expand_entry_st cs all_templates external_conditionals h user_vars overlay_name
             overlay_def of
        (None, h') \<Rightarrow> (None, h')
      | (Some (Inl e), h') \<Rightarrow> (Some (Inl e), h')
      | (Some (Inr appended), h') \<Rightarrow>
          expand_overlays_st cs all_templates external_conditionals h' user_vars overlays_section
            (expanded_overlays @ appended))"
| "expand_overlays_st cs all_templates external_conditionals h user_vars
     ((overlay_name, overlay_def) # overlays_section) expanded_overlays =
     expand_overlays_st cs all_templates external_conditionals h user_vars overlays_section
       expanded_overlays"

text \<open>
  \<^verbatim>\<open>expand_overlay_file\<close> with the caller's mapping at the address
  \<open>user_template_variables\<close> (\<open>None\<close> for \<^verbatim>\<open>None\<close>).
  \<^verbatim>\<open>user_template_variables or {}\<close> is the caller's object unless it is empty.
\<close>

definition expand_overlay_data_st ::
  "(Value \<Rightarrow> string) \<Rightarrow> file_system \<Rightarrow> template_cache \<Rightarrow> heap \<Rightarrow> Value \<Rightarrow> nat option \<Rightarrow>
   ((py_error + Value list) option \<times> template_cache) \<times> heap" where
  "expand_overlay_data_st cs fs cache h data0 user_template_variables =
     (if \<not> truthy data0 then ((Some (Inr []), cache), h)
      else case data0 of
        VMap data \<Rightarrow>
          (let (variables, h0) =
                 (case user_template_variables of
                    None \<Rightarrow> alloc h []
                  | Some a \<Rightarrow> if h ! a \<noteq> [] then (a, h) else alloc h []);
               (user_vars, h1) = preprocess_template_variables_st h0 variables in
           case load_external_st fs cache h1 data user_vars of
             ((Inl e, cache'), h2) \<Rightarrow> ((Some (Inl e), cache'), h2)
           | ((Inr (external_templates, external_conditionals), cache'), h2) \<Rightarrow>
               (case (external_templates,
                      case dict_get data (VStr ''templates'') of None \<Rightarrow> VMap [] | Some t \<Rightarrow> t) of
                  (VMap ext, VMap local_templates) \<Rightarrow>
                    (case (case dict_get data (VStr ''overlays'') of
                             None \<Rightarrow> VMap [] | Some s \<Rightarrow> s) of
                       VMap overlays_section \<Rightarrow>
                         (case expand_overlays_st cs (dict_update ext local_templates)
                                 external_conditionals h2 user_vars overlays_section [] of
                            (r, h3) \<Rightarrow> ((r, cache'), h3))
                     | _ \<Rightarrow> ((Some (Inl AttributeError), cache'), h2))
                | _ \<Rightarrow> ((Some (Inl TypeError), cache'), h2)))
      | VSeq xs \<Rightarrow>
          ((Some (Inl (if py_in (VStr ''external_templates'') xs then TypeError
                       else AttributeError)), cache), h)
      | VStr s \<Rightarrow>
          ((Some (Inl (if str_contains ''external_templates'' s then TypeError
                       else AttributeError)), cache), h)
      | _ \<Rightarrow> ((Some (Inl TypeError), cache), h))"

definition expand_overlay_file_st ::
  "(Value \<Rightarrow> string) \<Rightarrow> file_system \<Rightarrow> template_cache \<Rightarrow> heap \<Rightarrow> string \<Rightarrow> nat option \<Rightarrow>
   ((py_error + Value list) option \<times> template_cache) \<times> heap" where
  "expand_overlay_file_st cs fs cache h file_path user_template_variables =
     (case fs (overlay_path_of file_path) of
        Missing \<Rightarrow> ((Some (Inr []), cache), h)
      | Unreadable \<Rightarrow> ((Some (Inr []), cache), h)
      | Parsed data \<Rightarrow> expand_overlay_data_st cs fs cache h data user_template_variables)"


subsection \<open>The store model computes what the model on values computes\<close>

lemma store_set_twice:
  "a < length h \<Longrightarrow> store_set (store_set h a k v) a k' v' = h[a := dict_set (dict_set (h ! a) k v) k' v']"
  by (simp add: store_set_def)

lemma expand_rating_st_eq:
  "result < length h \<Longrightarrow> expand_rating_st result h i = h[result := expand_rating (h ! result) i]"
  by (auto simp: expand_rating_st_def expand_rating_def store_set_twice Let_def
      split: option.splits Value.splits)

lemma foldl_expand_rating_st_eq:
  "result < length h \<Longrightarrow>
   foldl (expand_rating_st result) h is = h[result := foldl expand_rating (h ! result) is]"
proof (induction "is" arbitrary: h)
  case Nil
  then show ?case by simp
next
  case (Cons i "is")
  let ?h = "h[result := expand_rating (h ! result) i]"
  from Cons.prems have "result < length ?h"
    by simp
  from Cons.IH [OF this] Cons.prems show ?case
    by (simp add: expand_rating_st_eq)
qed

lemma preprocess_template_variables_st_eq:
  "preprocess_template_variables_st h variables
     = (length h, h @ [preprocess_template_variables (h ! variables)])"
proof -
  have "length h < length (h @ [h ! variables])"
    by simp
  from foldl_expand_rating_st_eq [OF this, of "[1, 2, 3]"]
  have f: "foldl (expand_rating_st (length h)) (h @ [h ! variables]) [1, 2, 3]
      = h @ [foldl expand_rating (h ! variables) [1, 2, 3]]"
    by (simp del: foldl_Cons)
  show ?thesis
    unfolding preprocess_template_variables_st_def preprocess_template_variables_def alloc_def
      Let_def prod.case f ..
qed

lemma set_defaults_st_eq:
  "user_vars < length h \<Longrightarrow>
   set_defaults_st ext_vars user_vars h = h[user_vars := set_defaults ext_vars (h ! user_vars)]"
proof (induction ext_vars arbitrary: h)
  case Nil
  then show ?case by simp
next
  case (Cons e ext_vars)
  obtain ek ev where e: "e = (ek, ev)"
    by (cases e)
  show ?case
  proof (cases "dict_has (h ! user_vars) ek")
    case True
    with Cons e show ?thesis by simp
  next
    case False
    let ?h = "store_set h user_vars ek ev"
    from Cons.prems have "user_vars < length ?h"
      by (simp add: store_set_def)
    from Cons.IH [OF this] False e Cons.prems show ?thesis
      by (simp add: store_set_def)
  qed
qed

lemma load_external_st_eq:
  "user_vars < length h \<Longrightarrow>
   load_external_st fs cache h data user_vars =
     (case load_external fs cache data (h ! user_vars) of
        (Inl e, cache') \<Rightarrow> ((Inl e, cache'), h)
      | (Inr (external_templates, user_vars', external_conditionals), cache') \<Rightarrow>
          ((Inr (external_templates, external_conditionals), cache'), h[user_vars := user_vars']))"
  by (auto simp: load_external_st_def load_external_def set_defaults_st_eq
      split: option.splits Value.splits prod.splits sum.splits)

lemma entry_variables_st_eq:
  "\<exists>d. entry_variables_st h user_vars overlay_name overlay_def
     = (case entry_variables (h ! user_vars) overlay_name overlay_def of
          Inl e \<Rightarrow> Inl e | Inr overlay_vars \<Rightarrow> Inr (length h), h @ [d]) \<and>
       (\<forall>overlay_vars. entry_variables (h ! user_vars) overlay_name overlay_def = Inr overlay_vars
          \<longrightarrow> d = overlay_vars)"
  by (auto simp: entry_variables_st_def entry_variables_def alloc_def store_update_def
      store_set_def Let_def split: option.splits Value.splits)

lemma expand_entry_st_eq:
  "\<exists>hs. expand_entry_st cs all_templates external_conditionals h user_vars overlay_name overlay_def
     = (expand_entry cs all_templates external_conditionals (h ! user_vars) overlay_name overlay_def,
        h @ hs)"
proof (cases "dict_get overlay_def (VStr ''template'')")
  case None
  then have "expand_entry_st cs all_templates external_conditionals h user_vars overlay_name overlay_def
     = (expand_entry cs all_templates external_conditionals (h ! user_vars) overlay_name overlay_def,
        h @ [])"
    by (auto simp: expand_entry_st_def expand_entry_def split: option.splits Value.splits)
  then show ?thesis
    by blast
next
  case (Some template_call)
  from entry_variables_st_eq [of h user_vars overlay_name overlay_def]
  obtain d where d: "entry_variables_st h user_vars overlay_name overlay_def
     = (case entry_variables (h ! user_vars) overlay_name overlay_def of
          Inl e \<Rightarrow> Inl e | Inr overlay_vars \<Rightarrow> Inr (length h), h @ [d])"
    and v: "\<forall>overlay_vars. entry_variables (h ! user_vars) overlay_name overlay_def = Inr overlay_vars
          \<longrightarrow> d = overlay_vars"
    by blast
  have "expand_entry_st cs all_templates external_conditionals h user_vars overlay_name overlay_def
     = (expand_entry cs all_templates external_conditionals (h ! user_vars) overlay_name overlay_def,
        h @ [d])"
  proof (cases "entry_variables (h ! user_vars) overlay_name overlay_def")
    case (Inl e)
    with Some d show ?thesis
      by (simp add: expand_entry_st_def expand_entry_def)
  next
    case (Inr overlay_vars)
    with v have "d = overlay_vars"
      by simp
    with Some d Inr show ?thesis
      by (simp add: expand_entry_st_def expand_entry_def Let_def
          split: option.splits sum.splits)
  qed
  then show ?thesis
    by blast
qed

lemma expand_overlays_st_eq:
  "user_vars < length h \<Longrightarrow>
   \<exists>hs. expand_overlays_st cs all_templates external_conditionals h user_vars overlays_section
           expanded_overlays
     = (expand_overlays cs all_templates external_conditionals (h ! user_vars) overlays_section
          expanded_overlays, h @ hs)"
proof (induction overlays_section arbitrary: h expanded_overlays)
  case Nil
  have "expand_overlays_st cs all_templates external_conditionals h user_vars [] expanded_overlays
     = (expand_overlays cs all_templates external_conditionals (h ! user_vars) []
          expanded_overlays, h @ [])"
    by simp
  then show ?case
    by blast
next
  case (Cons entry overlays_section)
  obtain overlay_name overlay_def0 where entry: "entry = (overlay_name, overlay_def0)"
    by (cases entry)
  show ?case
  proof (cases "\<exists>overlay_def. overlay_def0 = VMap overlay_def")
    case False
    then have "expand_overlays_st cs all_templates external_conditionals h user_vars
          (entry # overlays_section) expanded_overlays
        = expand_overlays_st cs all_templates external_conditionals h user_vars
            overlays_section expanded_overlays"
      and "expand_overlays cs all_templates external_conditionals (h ! user_vars)
          (entry # overlays_section) expanded_overlays
        = expand_overlays cs all_templates external_conditionals (h ! user_vars)
            overlays_section expanded_overlays"
      using entry by (cases overlay_def0; simp)+
    with Cons.IH [OF Cons.prems] show ?thesis
      by simp
  next
    case True
    then obtain overlay_def where od: "overlay_def0 = VMap overlay_def"
      by blast
    from expand_entry_st_eq obtain hs
      where e: "expand_entry_st cs all_templates external_conditionals h user_vars overlay_name
          overlay_def
        = (expand_entry cs all_templates external_conditionals (h ! user_vars) overlay_name
             overlay_def, h @ hs)"
      by blast
    show ?thesis
    proof (cases "\<exists>appended. expand_entry cs all_templates external_conditionals (h ! user_vars)
        overlay_name overlay_def = Some (Inr appended)")
      case False
      with e entry od
      have "expand_overlays_st cs all_templates external_conditionals h user_vars
          (entry # overlays_section) expanded_overlays
        = (expand_overlays cs all_templates external_conditionals (h ! user_vars)
            (entry # overlays_section) expanded_overlays, h @ hs)"
        by (auto split: option.splits sum.splits)
      then show ?thesis
        by blast
    next
      case True
      then obtain appended where a: "expand_entry cs all_templates external_conditionals
          (h ! user_vars) overlay_name overlay_def = Some (Inr appended)"
        by blast
      from Cons.prems have l: "user_vars < length (h @ hs)"
        by simp
      from Cons.IH [OF l, of "expanded_overlays @ appended"] obtain hs'
        where r: "expand_overlays_st cs all_templates external_conditionals (h @ hs) user_vars
            overlays_section (expanded_overlays @ appended)
          = (expand_overlays cs all_templates external_conditionals ((h @ hs) ! user_vars)
              overlays_section (expanded_overlays @ appended), (h @ hs) @ hs')"
        by blast
      from Cons.prems have "(h @ hs) ! user_vars = h ! user_vars"
        by (simp add: nth_append)
      with r e a entry od
      have "expand_overlays_st cs all_templates external_conditionals h user_vars
          (entry # overlays_section) expanded_overlays
        = (expand_overlays cs all_templates external_conditionals (h ! user_vars)
            (entry # overlays_section) expanded_overlays, h @ (hs @ hs'))"
        by simp
      then show ?thesis
        by blast
    qed
  qed
qed


lemma expand_overlay_data_st_eq:
  assumes "\<forall>a. user_template_variables = Some a \<longrightarrow> a < length h"
  shows "\<exists>hs. expand_overlay_data_st cs fs cache h data0 user_template_variables
     = (expand_overlay_data cs fs cache data0 (map_option (nth h) user_template_variables), h @ hs)"
proof (cases "truthy data0 \<and> (\<exists>data. data0 = VMap data)")
  case False
  then have "expand_overlay_data_st cs fs cache h data0 user_template_variables
     = (expand_overlay_data cs fs cache data0 (map_option (nth h) user_template_variables), h @ [])"
    by (cases data0) (auto simp: expand_overlay_data_st_def expand_overlay_data_def)
  then show ?thesis
    by blast
next
  case True
  then obtain data where data: "data0 = VMap data" and t: "truthy data0"
    by blast
  let ?content = "case map_option (nth h) user_template_variables of None \<Rightarrow> [] | Some v \<Rightarrow> v"
  let ?src = "case user_template_variables of
                None \<Rightarrow> alloc h []
              | Some a \<Rightarrow> if h ! a \<noteq> [] then (a, h) else alloc h []"
  obtain variables h0 where src: "?src = (variables, h0)"
    by (cases ?src)
  from src assms obtain hs0 where h0: "h0 = h @ hs0" and c: "h0 ! variables = ?content"
    by (cases user_template_variables) (auto simp: alloc_def nth_append split: if_splits)
  let ?pre = "preprocess_template_variables ?content"
  let ?uv = "length h0"
  have p: "preprocess_template_variables_st h0 variables = (?uv, h0 @ [?pre])"
    by (simp add: preprocess_template_variables_st_eq c)
  have l: "load_external_st fs cache (h0 @ [?pre]) data ?uv =
     (case load_external fs cache data ?pre of
        (Inl e, cache') \<Rightarrow> ((Inl e, cache'), h0 @ [?pre])
      | (Inr (external_templates, user_vars', external_conditionals), cache') \<Rightarrow>
          ((Inr (external_templates, external_conditionals), cache'), h0 @ [user_vars']))"
    using load_external_st_eq [of ?uv "h0 @ [?pre]" fs cache data]
    by (simp split: prod.splits sum.splits)
  obtain r cache' where le: "load_external fs cache data ?pre = (r, cache')"
    by (cases "load_external fs cache data ?pre")
  show ?thesis
  proof (cases r)
    case (Inl e)
    with le l src p data t h0
    have "expand_overlay_data_st cs fs cache h data0 user_template_variables
       = (expand_overlay_data cs fs cache data0 (map_option (nth h) user_template_variables),
          h @ (hs0 @ [?pre]))"
      by (simp add: expand_overlay_data_st_def expand_overlay_data_def)
    then show ?thesis
      by blast
  next
    case (Inr x)
    then obtain external_templates user_vars' external_conditionals
      where x: "r = Inr (external_templates, user_vars', external_conditionals)"
      by (cases x) auto
    let ?local = "case dict_get data (VStr ''templates'') of None \<Rightarrow> VMap [] | Some t \<Rightarrow> t"
    let ?section = "case dict_get data (VStr ''overlays'') of None \<Rightarrow> VMap [] | Some s \<Rightarrow> s"
    show ?thesis
    proof (cases "\<exists>ext local_templates overlays_section. external_templates = VMap ext \<and>
        ?local = VMap local_templates \<and> ?section = VMap overlays_section")
      case False
      with x le l src p data t h0
      have "expand_overlay_data_st cs fs cache h data0 user_template_variables
         = (expand_overlay_data cs fs cache data0 (map_option (nth h) user_template_variables),
            h @ (hs0 @ [user_vars']))"
        by (auto simp: expand_overlay_data_st_def expand_overlay_data_def split: Value.splits)
      then show ?thesis
        by blast
    next
      case True
      then obtain ext local_templates overlays_section
        where e: "external_templates = VMap ext" and lt: "?local = VMap local_templates"
          and os: "?section = VMap overlays_section"
        by blast
      have "?uv < length (h0 @ [user_vars'])"
        by simp
      from expand_overlays_st_eq [OF this, of cs "dict_update ext local_templates"
          external_conditionals overlays_section "[]"]
      obtain hs where eo: "expand_overlays_st cs (dict_update ext local_templates)
            external_conditionals (h0 @ [user_vars']) ?uv overlays_section []
          = (expand_overlays cs (dict_update ext local_templates) external_conditionals
               user_vars' overlays_section [], (h0 @ [user_vars']) @ hs)"
        by auto
      from eo e lt os x le l src p data t h0
      have "expand_overlay_data_st cs fs cache h data0 user_template_variables
         = (expand_overlay_data cs fs cache data0 (map_option (nth h) user_template_variables),
            h @ (hs0 @ [user_vars'] @ hs))"
        by (simp add: expand_overlay_data_st_def expand_overlay_data_def)
      then show ?thesis
        by blast
    qed
  qed
qed

text \<open>
  C9 (\<^verbatim>\<open>expand_overlay_file\<close> never changes the mapping of user variables its caller
  passes): in the store model, with the caller's mapping at an address of the store,
  the store after the call is the store before it followed by the objects the call
  allocated, so the caller's mapping, as every object that was there, is as it was; and
  the call returns what the model on values returns for the content of that mapping.
\<close>

theorem C9_user_variables_unchanged:
  assumes "user_template_variables < length h"
  shows "snd (expand_overlay_file_st cs fs cache h file_path (Some user_template_variables))
           ! user_template_variables = h ! user_template_variables \<and>
         take (length h)
           (snd (expand_overlay_file_st cs fs cache h file_path (Some user_template_variables))) = h \<and>
         fst (expand_overlay_file_st cs fs cache h file_path (Some user_template_variables))
           = expand_overlay_file cs fs cache file_path (Some (h ! user_template_variables))"
proof -
  have "\<exists>hs. expand_overlay_file_st cs fs cache h file_path (Some user_template_variables)
     = (expand_overlay_file cs fs cache file_path (Some (h ! user_template_variables)), h @ hs)"
  proof (cases "fs (overlay_path_of file_path)")
    case (Parsed data)
    from expand_overlay_data_st_eq [of "Some user_template_variables" h cs fs cache data] assms
      Parsed
    show ?thesis
      by (simp add: expand_overlay_file_st_def expand_overlay_file_def)
  next
    case Missing
    then have "expand_overlay_file_st cs fs cache h file_path (Some user_template_variables)
     = (expand_overlay_file cs fs cache file_path (Some (h ! user_template_variables)), h @ [])"
      by (simp add: expand_overlay_file_st_def expand_overlay_file_def)
    then show ?thesis
      by blast
  next
    case Unreadable
    then have "expand_overlay_file_st cs fs cache h file_path (Some user_template_variables)
     = (expand_overlay_file cs fs cache file_path (Some (h ! user_template_variables)), h @ [])"
      by (simp add: expand_overlay_file_st_def expand_overlay_file_def)
    then show ?thesis
      by blast
  qed
  then obtain hs where "expand_overlay_file_st cs fs cache h file_path (Some user_template_variables)
     = (expand_overlay_file cs fs cache file_path (Some (h ! user_template_variables)), h @ hs)"
    by blast
  with assms show ?thesis
    by (simp add: nth_append)
qed

theorem C9_user_variables_unchanged_witness:
  "snd (expand_overlay_file_st (\<lambda>_. [])
     (\<lambda>p. if p = Relative ''o.yml'' then Parsed (VMap
        [(VStr ''templates'',
            VMap [(VStr ''a'', VMap [(VStr ''overlay'', VMap [(VStr ''name'', VStr ''<<rating1>>'')])])]),
         (VStr ''overlays'', VMap [(VStr ''o'', VMap [(VStr ''template'', VStr ''a'')])])])
      else Missing)
     Map.empty [[(VStr ''rating1'', VStr ''user / rt'')]] ''o.yml'' (Some 0)) ! 0
   = [(VStr ''rating1'', VStr ''user / rt'')] \<and>
   fst (fst (expand_overlay_file_st (\<lambda>_. [])
     (\<lambda>p. if p = Relative ''o.yml'' then Parsed (VMap
        [(VStr ''templates'',
            VMap [(VStr ''a'', VMap [(VStr ''overlay'', VMap [(VStr ''name'', VStr ''<<rating1>>'')])])]),
         (VStr ''overlays'', VMap [(VStr ''o'', VMap [(VStr ''template'', VStr ''a'')])])])
      else Missing)
     Map.empty [[(VStr ''rating1'', VStr ''user / rt'')]] ''o.yml'' (Some 0)))
   = Some (Inr [VMap [(VStr ''name'', VStr ''user''), (VStr ''_original_name'', VStr ''o''),
                      (VStr ''_template'', VStr ''a'')]])"
proof -
  let ?fs = "\<lambda>p. if p = Relative ''o.yml'' then Parsed (VMap
        [(VStr ''templates'',
            VMap [(VStr ''a'', VMap [(VStr ''overlay'', VMap [(VStr ''name'', VStr ''<<rating1>>'')])])]),
         (VStr ''overlays'', VMap [(VStr ''o'', VMap [(VStr ''template'', VStr ''a'')])])])
      else Missing"
  let ?h = "[[(VStr ''rating1'', VStr ''user / rt'')]]"
  have l: "0 < length ?h"
    by simp
  have e: "fst (expand_overlay_file (\<lambda>_. []) ?fs Map.empty ''o.yml'' (Some (?h ! 0)))
     = Some (Inr [VMap [(VStr ''name'', VStr ''user''), (VStr ''_original_name'', VStr ''o''),
                        (VStr ''_template'', VStr ''a'')]])"
    by code_simp
  from C9_user_variables_unchanged [OF l, of "\<lambda>_. []" ?fs Map.empty "''o.yml''"] e
  show ?thesis
    by simp
qed

end
